theory Spec2Isabelle
  imports Main
begin

section \<open>JavaScript values\<close>

text \<open>
  The client handles decoded JSON bodies, parameter objects and envelopes as plain
  JavaScript values. An object is the list of its own properties in enumeration order
  (property names are distinct in every object JavaScript can build). Numbers are the
  integer-valued ones: \<open>JNum n\<close> is the number a JSON text writes as \<open>n\<close>, which is the
  double nearest to \<open>n\<close>; the magnitudes from \<open>2^1024\<close> on, which no finite double is near
  to, stand for no number here. Strings are byte strings (UTF-8).
\<close>

datatype jsval =
    JUndefined
  | JNull
  | JBool bool
  | JNum int
  | JStr string
  | JArr "jsval list"
  | JObj "(string \<times> jsval) list"

text \<open>ToBoolean, as applied by \<open>if (x)\<close>, \<open>x && y\<close> and \<open>x || y\<close>.\<close>

fun truthy :: "jsval \<Rightarrow> bool" where
  "truthy JUndefined = False"
| "truthy JNull = False"
| "truthy (JBool b) = b"
| "truthy (JNum n) = (n \<noteq> 0)"
| "truthy (JStr s) = (s \<noteq> [])"
| "truthy (JArr xs) = True"
| "truthy (JObj kvs) = True"

fun typeof :: "jsval \<Rightarrow> string" where
  "typeof JUndefined = ''undefined''"
| "typeof JNull = ''object''"
| "typeof (JBool b) = ''boolean''"
| "typeof (JNum n) = ''number''"
| "typeof (JStr s) = ''string''"
| "typeof (JArr xs) = ''object''"
| "typeof (JObj kvs) = ''object''"

text \<open>
  \<open>key in v\<close> for a property name that no prototype defines (\<open>data\<close>): true exactly
  for an object with that own property. An array has index keys and \<open>length\<close> only.
\<close>

fun has_property :: "string \<Rightarrow> jsval \<Rightarrow> bool" where
  "has_property key (JObj kvs) = (key \<in> fst ` set kvs)"
| "has_property key v = False"

text \<open>
  \<open>v.key\<close> for a property name that no prototype defines (\<open>message\<close>, and the keys of
  a parameter object): reading from \<open>null\<close> or \<open>undefined\<close> throws a TypeError
  (\<open>None\<close>), a missing property reads as \<open>undefined\<close>.
\<close>

definition own_property :: "(string \<times> jsval) list \<Rightarrow> string \<Rightarrow> jsval" where
  "own_property kvs key = (case map_of kvs key of None \<Rightarrow> JUndefined | Some v \<Rightarrow> v)"

fun get_property :: "jsval \<Rightarrow> string \<Rightarrow> jsval option" where
  "get_property JUndefined key = None"
| "get_property JNull key = None"
| "get_property (JObj kvs) key = Some (own_property kvs key)"
| "get_property v key = Some JUndefined"

text \<open>The text V8 gives the TypeError of a property read from \<open>null\<close> or \<open>undefined\<close>.\<close>

definition cannot_read :: "jsval \<Rightarrow> string \<Rightarrow> string" where
  "cannot_read v key =
     ''Cannot read properties of '' @ (if v = JNull then ''null'' else ''undefined'')
       @ '' (reading '' @ [CHR 0x27] @ key @ [CHR 0x27] @ '')''"

subsection \<open>Number and string conversion\<close>

definition digit_char :: "nat \<Rightarrow> char" where
  "digit_char d = ''0123456789'' ! d"

fun nat_digits :: "nat \<Rightarrow> string" where
  "nat_digits n =
     (if n < 10 then [digit_char n] else nat_digits (n div 10) @ [digit_char (n mod 10)])"

declare nat_digits.simps [simp del]

text \<open>
  The double nearest to a non-negative integer: from \<open>2^53\<close> on only 53 leading bits are
  kept, rounded half to even.
\<close>

function bit_length :: "int \<Rightarrow> nat" where
  "bit_length n = (if n \<le> 0 then 0 else Suc (bit_length (n div 2)))"
  by pat_completeness auto
termination
  by (relation "measure nat") auto

declare bit_length.simps [simp del]

definition round_double :: "int \<Rightarrow> int" where
  "round_double v =
     (if v < 2 ^ 53 then v
      else
        (let sh = bit_length v - 53; q = v div 2 ^ sh; r = v mod 2 ^ sh; half = 2 ^ (sh - 1)
         in (if half < r \<or> (r = half \<and> odd q) then q + 1 else q) * 2 ^ sh))"

text \<open>
  The digits \<open>Number.prototype.toString\<close> prints for a double \<open>v\<close> of at least \<open>2^53\<close>: the
  decimal \<open>c = s * 10^t\<close> with the fewest significant digits among those that still read
  back as \<open>v\<close>, the nearest to \<open>v\<close> if there are several. \<open>lb\<close> and \<open>ub\<close> are the least and
  greatest integers that round to \<open>v\<close> (the midpoints to the neighbouring doubles count
  when the mantissa \<open>q\<close> is even; the lower neighbour is half as far at a power of two).
  The result is \<open>(c, t)\<close>.
\<close>

definition shortest_decimal :: "int \<Rightarrow> int \<times> nat" where
  "shortest_decimal v =
     (let e = bit_length v - 1; ulp = 2 ^ (e - 52); q = v div ulp;
          lo2 = (if v = 2 ^ e then ulp div 2 else ulp);
          lb = (if even q then (2 * v - lo2 + 1) div 2 else (2 * v - lo2) div 2 + 1);
          ub = (if even q then (2 * v + ulp) div 2 else (2 * v + ulp + 1) div 2 - 1);
          t = length (takeWhile (\<lambda>t. lb \<le> (ub div 10 ^ t) * 10 ^ t) [1..<bit_length v]);
          clo = (v div 10 ^ t) * 10 ^ t;
          chi = ((v + 10 ^ t - 1) div 10 ^ t) * 10 ^ t;
          c = (if clo < lb then chi
               else if ub < chi then clo
               else if v - clo < chi - v then clo
               else if chi - v < v - clo then chi
               else if even (clo div 10 ^ t) then clo else chi)
      in (c, t))"

text \<open>
  \<open>Number.prototype.toString\<close> on an integer-valued number: all the digits of the
  shortest decimal while there are at most 21 of them, the exponent form
  \<open>d.ddde+x\<close> beyond.
\<close>

definition Number_toString :: "int \<Rightarrow> string" where
  "Number_toString n =
     (let v = round_double \<bar>n\<bar>;
          digits =
            (if v < 2 ^ 53 then nat_digits (nat v)
             else
               (case shortest_decimal v of
                  (c, t) \<Rightarrow>
                    if length (nat_digits (nat c)) \<le> 21 then nat_digits (nat c)
                    else
                      (case nat_digits (nat (c div 10 ^ t)) of
                         [] \<Rightarrow> []
                       | d # ds \<Rightarrow>
                           d # (if ds = [] then [] else ''.'' @ ds) @ ''e+''
                             @ nat_digits (length (nat_digits (nat c)) - 1))))
      in if n < 0 then ''-'' @ digits else digits)"

fun join :: "string \<Rightarrow> string list \<Rightarrow> string" where
  "join sep [] = []"
| "join sep [x] = x"
| "join sep (x # y # ys) = x @ sep @ join sep (y # ys)"

text \<open>
  ToString, as applied by \<open>new Error(x)\<close> to its argument. An array joins its elements
  with commas, printing \<open>null\<close> and \<open>undefined\<close> elements as the empty string. An object
  prints as \<open>[object Object]\<close> through the inherited \<open>toString\<close>, unless it has a property
  of that name of its own: a decoded JSON value is no function, so the conversion throws
  a TypeError (\<open>None\<close>).
\<close>

fun js_String :: "jsval \<Rightarrow> string option" where
  "js_String JUndefined = Some ''undefined''"
| "js_String JNull = Some ''null''"
| "js_String (JBool b) = Some (if b then ''true'' else ''false'')"
| "js_String (JNum n) = Some (Number_toString n)"
| "js_String (JStr s) = Some s"
| "js_String (JArr xs) =
     map_option (join '','')
       (those (map (\<lambda>x. if x = JUndefined \<or> x = JNull then Some [] else js_String x) xs))"
| "js_String (JObj kvs) =
     (if ''toString'' \<in> fst ` set kvs then None else Some ''[object Object]'')"

text \<open>\<open>s.startsWith(t)\<close> and \<open>s.includes(t)\<close>.\<close>

fun String_startsWith :: "string \<Rightarrow> string \<Rightarrow> bool" where
  "String_startsWith s [] = True"
| "String_startsWith [] (d # t) = False"
| "String_startsWith (c # s) (d # t) = (c = d \<and> String_startsWith s t)"

fun String_includes :: "string \<Rightarrow> string \<Rightarrow> bool" where
  "String_includes [] t = (t = [])"
| "String_includes (c # s) t = (String_startsWith (c # s) t \<or> String_includes s t)"

section \<open>The HTTP library and the effects of an operation\<close>

text \<open>
  \<open>axios(url, config)\<close> either resolves with a response (status code and decoded body)
  or rejects with a thrown value: an \<open>AxiosError\<close> (its message, and the response when
  one was received), some other \<open>Error\<close> instance (its message), or a value that is no
  \<open>Error\<close> at all. Which of these a given HTTP exchange leads to is the library's
  business (by default it rejects a response whose status is outside 200..299 with an
  \<open>AxiosError\<close> carrying that response); the client is modelled for every outcome.
\<close>

record response =
  status :: nat
  data :: jsval

datatype js_error =
    AxiosError string "response option"
  | OtherError string
  | NonError

datatype axios_outcome = Resolved response | Rejected js_error

text \<open>
  The library is a parameter of the model: what the call with this URL and these headers
  settles to, given how many calls the running operation has made before it.
\<close>

type_synonym axios_fn = "string \<Rightarrow> (string \<times> string) list \<Rightarrow> nat \<Rightarrow> axios_outcome"

text \<open>What an operation does to the outside, in order: HTTP calls and timer waits (ms).\<close>

datatype event = AxiosCall string "(string \<times> string) list" | SetTimeout nat

fun instanceof_Error :: "js_error \<Rightarrow> bool" where
  "instanceof_Error (AxiosError m r) = True"
| "instanceof_Error (OtherError m) = True"
| "instanceof_Error NonError = False"

fun isAxiosError :: "js_error \<Rightarrow> bool" where
  "isAxiosError (AxiosError m r) = True"
| "isAxiosError (OtherError m) = False"
| "isAxiosError NonError = False"

fun error_message :: "js_error \<Rightarrow> string" where
  "error_message (AxiosError m r) = m"
| "error_message (OtherError m) = m"
| "error_message NonError = []"

fun error_response :: "js_error \<Rightarrow> response option" where
  "error_response (AxiosError m r) = r"
| "error_response (OtherError m) = None"
| "error_response NonError = None"

section \<open>Schemas\<close>

text \<open>
  A failed \<open>parse\<close> throws a ZodError holding one issue per violated constraint: the
  path of the offending property and the issue code.
\<close>

datatype zod_issue = ZodIssue "string list" string

record TldvConfig =
  apiKey :: string

text \<open>\<open>z.object({ apiKey: z.string().min(1, 'API key is required') })\<close>\<close>

definition TldvConfigSchema_parse :: "jsval \<Rightarrow> zod_issue list + TldvConfig" where
  "TldvConfigSchema_parse config =
     (case config of
        JObj kvs \<Rightarrow>
          (case own_property kvs ''apiKey'' of
             JStr s \<Rightarrow>
               if 1 \<le> length s then Inr \<lparr>apiKey = s\<rparr>
               else Inl [ZodIssue [''apiKey''] ''too_small'']
           | _ \<Rightarrow> Inl [ZodIssue [''apiKey''] ''invalid_type''])
      | _ \<Rightarrow> Inl [ZodIssue [] ''invalid_type''])"

text \<open>
  The parsers of the optional properties. \<open>undefined\<close> (also what a missing property
  reads as) is accepted and stays unset; a value of another type is an \<open>invalid_type\<close>
  issue. The numbers of the model are integers, so \<open>int()\<close> has nothing to reject.
\<close>

definition z_string_optional :: "string \<Rightarrow> jsval \<Rightarrow> zod_issue list + string option" where
  "z_string_optional key v =
     (case v of
        JUndefined \<Rightarrow> Inr None
      | JStr s \<Rightarrow> Inr (Some s)
      | _ \<Rightarrow> Inl [ZodIssue [key] ''invalid_type''])"

definition z_number_int_positive_optional :: "string \<Rightarrow> jsval \<Rightarrow> zod_issue list + int option" where
  "z_number_int_positive_optional key v =
     (case v of
        JUndefined \<Rightarrow> Inr None
      | JNum n \<Rightarrow> if 0 < n then Inr (Some n) else Inl [ZodIssue [key] ''too_small'']
      | _ \<Rightarrow> Inl [ZodIssue [key] ''invalid_type''])"

text \<open>
  Which strings \<open>datetime()\<close> accepts depends on the zod release installed; the test is
  a parameter.
\<close>

definition z_string_datetime_optional ::
  "(string \<Rightarrow> bool) \<Rightarrow> string \<Rightarrow> jsval \<Rightarrow> zod_issue list + string option" where
  "z_string_datetime_optional isDatetime key v =
     (case v of
        JUndefined \<Rightarrow> Inr None
      | JStr s \<Rightarrow> if isDatetime s then Inr (Some s) else Inl [ZodIssue [key] ''invalid_string'']
      | _ \<Rightarrow> Inl [ZodIssue [key] ''invalid_type''])"

definition z_boolean_optional :: "string \<Rightarrow> jsval \<Rightarrow> zod_issue list + bool option" where
  "z_boolean_optional key v =
     (case v of
        JUndefined \<Rightarrow> Inr None
      | JBool b \<Rightarrow> Inr (Some b)
      | _ \<Rightarrow> Inl [ZodIssue [key] ''invalid_type''])"

definition z_enum_optional :: "string list \<Rightarrow> string \<Rightarrow> jsval \<Rightarrow> zod_issue list + string option" where
  "z_enum_optional values key v =
     (case v of
        JUndefined \<Rightarrow> Inr None
      | JStr s \<Rightarrow> if s \<in> set values then Inr (Some s)
                  else Inl [ZodIssue [key] ''invalid_enum_value'']
      | _ \<Rightarrow> Inl [ZodIssue [key] ''invalid_type''])"

text \<open>\<open>default(d)\<close>: an \<open>undefined\<close> input is replaced before the inner schema sees it.\<close>

definition z_default :: "jsval \<Rightarrow> jsval \<Rightarrow> jsval" where
  "z_default d v = (if v = JUndefined then d else v)"

text \<open>An object schema parses every property and reports the issues of all of them.\<close>

fun zod_both :: "zod_issue list + 'a \<Rightarrow> zod_issue list + 'b \<Rightarrow> zod_issue list + ('a \<times> 'b)" where
  "zod_both (Inr a) (Inr b) = Inr (a, b)"
| "zod_both (Inl xs) (Inr b) = Inl xs"
| "zod_both (Inr a) (Inl ys) = Inl ys"
| "zod_both (Inl xs) (Inl ys) = Inl (xs @ ys)"

text \<open>
  The validated parameters. \<open>limit\<close> is never unset (the default fills it in); it keeps
  the optional type of its inner schema.
\<close>

record GetMeetingsParams =
  query :: "string option"
  page :: "int option"
  limit :: "int option"
  from' :: "string option"
  to' :: "string option"
  onlyParticipated :: "bool option"
  meetingType :: "string option"

definition GetMeetingsParamsSchema_parse ::
  "(string \<Rightarrow> bool) \<Rightarrow> jsval \<Rightarrow> zod_issue list + GetMeetingsParams" where
  "GetMeetingsParamsSchema_parse isDatetime params =
     (case params of
        JObj kvs \<Rightarrow>
          (case
             zod_both (z_string_optional ''query'' (own_property kvs ''query''))
            (zod_both (z_number_int_positive_optional ''page'' (own_property kvs ''page''))
            (zod_both (z_number_int_positive_optional ''limit''
                         (z_default (JNum 50) (own_property kvs ''limit'')))
            (zod_both (z_string_datetime_optional isDatetime ''from'' (own_property kvs ''from''))
            (zod_both (z_string_datetime_optional isDatetime ''to'' (own_property kvs ''to''))
            (zod_both (z_boolean_optional ''onlyParticipated'' (own_property kvs ''onlyParticipated''))
                      (z_enum_optional [''internal'', ''external''] ''meetingType''
                         (own_property kvs ''meetingType'')))))))
           of
             Inl issues \<Rightarrow> Inl issues
           | Inr (q, p, l, f, t, op, mt) \<Rightarrow>
               Inr \<lparr>query = q, page = p, limit = l, from' = f, to' = t,
                    onlyParticipated = op, meetingType = mt\<rparr>)
      | _ \<Rightarrow> Inl [ZodIssue [] ''invalid_type''])"

section \<open>The API client\<close>

definition BASE_URL :: string where
  "BASE_URL = ''https://pasta.tldv.io/v1alpha1''"

definition MAX_RETRIES :: nat where
  "MAX_RETRIES = 3"

definition RETRY_DELAY :: nat where
  "RETRY_DELAY = 1000"

definition MAX_RETRY_DELAY :: nat where
  "MAX_RETRY_DELAY = 2000"

record TldvApi = TldvConfig +
  baseUrl :: string
  headers :: "(string \<times> string) list"

text \<open>The constructor: \<open>Inl\<close> is the ZodError it throws.\<close>

definition TldvApi_constructor :: "jsval \<Rightarrow> zod_issue list + TldvApi" where
  "TldvApi_constructor config =
     (case TldvConfigSchema_parse config of
        Inl issues \<Rightarrow> Inl issues
      | Inr validatedConfig \<Rightarrow>
          Inr \<lparr>apiKey = apiKey validatedConfig,
               baseUrl = BASE_URL,
               headers = [(''x-api-key'', apiKey validatedConfig),
                          (''Content-Type'', ''application/json'')]\<rparr>)"

text \<open>
  The \<open>try\<close> block of \<open>request\<close> after the awaited call has settled: \<open>Inl\<close> is the value
  that reaches the \<open>catch\<close> clause, \<open>Inr\<close> the value returned. Besides the rejection of the
  call and the \<open>Error\<close> of line 79, the clause catches the TypeErrors that building that
  \<open>Error\<close> can throw: reading \<open>message\<close> from a \<open>null\<close> body, and converting to a string
  a message that cannot be converted.
\<close>

definition try_block :: "axios_outcome \<Rightarrow> js_error + jsval" where
  "try_block outcome =
     (case outcome of
        Rejected error \<Rightarrow> Inl error
      | Resolved response \<Rightarrow>
          if status response > 200 then
            (case get_property (data response) ''message'' of
               None \<Rightarrow> Inl (OtherError (cannot_read (data response) ''message''))
             | Some message \<Rightarrow>
                 (case js_String (if truthy message then message
                                  else JStr ''API request failed'') of
                    None \<Rightarrow> Inl (OtherError ''Cannot convert object to primitive value'')
                  | Some str \<Rightarrow> Inl (OtherError str)))
          else
            (let responseData = data response in
             if truthy responseData \<and> typeof responseData = ''object''
                  \<and> has_property ''data'' responseData
             then Inr responseData
             else Inr (JObj [(''data'', responseData), (''error'', JUndefined)])))"

definition shouldRetry :: "nat \<Rightarrow> nat \<Rightarrow> js_error \<Rightarrow> bool" where
  "shouldRetry retryCount maxRetries error =
     (retryCount < maxRetries \<and>
      ((instanceof_Error error \<and> String_includes (error_message error) ''Network Error'') \<or>
       (isAxiosError error \<and>
          (case error_response error of None \<Rightarrow> False | Some r \<Rightarrow> status r \<ge> 500)) \<or>
       (isAxiosError error \<and>
          (case error_response error of None \<Rightarrow> False | Some r \<Rightarrow> status r = 429))))"

definition retry_delay :: "nat \<Rightarrow> nat" where
  "retry_delay retryCount = min (RETRY_DELAY * 2 ^ retryCount) MAX_RETRY_DELAY"

definition error_envelope :: "js_error \<Rightarrow> jsval" where
  "error_envelope error =
     JObj [(''data'', JNull),
           (''error'', JStr (if instanceof_Error error then error_message error
                             else ''Unknown error occurred''))]"

text \<open>
  \<open>request\<close> returns the envelope together with the events of the whole call, those of
  its retries included.
\<close>

function request :: "axios_fn \<Rightarrow> TldvApi \<Rightarrow> string \<Rightarrow> nat \<Rightarrow> nat \<Rightarrow> jsval \<times> event list" where
  "request axios this endpoint retryCount maxRetries =
     (case try_block (axios (baseUrl this @ endpoint) (headers this) retryCount) of
        Inr envelope \<Rightarrow> (envelope, [AxiosCall (baseUrl this @ endpoint) (headers this)])
      | Inl error \<Rightarrow>
          if shouldRetry retryCount maxRetries error then
            apsnd (\<lambda>later. AxiosCall (baseUrl this @ endpoint) (headers this)
                            # SetTimeout (retry_delay retryCount) # later)
              (request axios this endpoint (retryCount + 1) maxRetries)
          else (error_envelope error, [AxiosCall (baseUrl this @ endpoint) (headers this)]))"
  by pat_completeness auto
termination
  by (relation "measure (\<lambda>(axios, this, endpoint, retryCount, maxRetries). maxRetries - retryCount)")
     (auto simp: shouldRetry_def)

declare request.simps [simp del]

definition getMeeting :: "axios_fn \<Rightarrow> TldvApi \<Rightarrow> string \<Rightarrow> jsval \<times> event list" where
  "getMeeting axios this meetingId =
     request axios this (''/meetings/'' @ meetingId) 0 MAX_RETRIES"

definition getTranscript :: "axios_fn \<Rightarrow> TldvApi \<Rightarrow> string \<Rightarrow> jsval \<times> event list" where
  "getTranscript axios this meetingId =
     request axios this (''/meetings/'' @ meetingId @ ''/transcript'') 0 MAX_RETRIES"

definition getHighlights :: "axios_fn \<Rightarrow> TldvApi \<Rightarrow> string \<Rightarrow> jsval \<times> event list" where
  "getHighlights axios this meetingId =
     request axios this (''/meetings/'' @ meetingId @ ''/highlights'') 0 MAX_RETRIES"

definition healthCheck :: "axios_fn \<Rightarrow> TldvApi \<Rightarrow> jsval \<times> event list" where
  "healthCheck axios this = request axios this ''/health'' 0 MAX_RETRIES"

subsection \<open>The query string of \<open>getMeetings\<close>\<close>

text \<open>
  \<open>URLSearchParams\<close> is the list of appended pairs; its string is the
  \<open>application/x-www-form-urlencoded\<close> serialisation of the names and values.
\<close>

definition hex_char :: "nat \<Rightarrow> char" where
  "hex_char d = ''0123456789ABCDEF'' ! d"

definition form_encode_byte :: "char \<Rightarrow> string" where
  "form_encode_byte c =
     (if c \<in> set (''abcdefghijklmnopqrstuvwxyz'' @ ''ABCDEFGHIJKLMNOPQRSTUVWXYZ''
                    @ ''0123456789'' @ ''*-._'') then [c]
      else if c = CHR '' '' then ''+''
      else [CHR ''%'', hex_char (of_char c div 16), hex_char (of_char c mod 16)])"

definition form_encode :: "string \<Rightarrow> string" where
  "form_encode s = concat (map form_encode_byte s)"

definition URLSearchParams_toString :: "(string \<times> string) list \<Rightarrow> string" where
  "URLSearchParams_toString queryParams =
     join ''&'' (map (\<lambda>(name, v). form_encode name @ ''='' @ form_encode v) queryParams)"

text \<open>The seven conditional \<open>append\<close> calls, in the order of the source.\<close>

definition getMeetings_queryParams :: "GetMeetingsParams \<Rightarrow> (string \<times> string) list" where
  "getMeetings_queryParams validatedParams =
     (case query validatedParams of
        Some q \<Rightarrow> if q \<noteq> [] then [(''query'', q)] else []
      | None \<Rightarrow> [])
     @ (case page validatedParams of
          Some p \<Rightarrow> if p \<noteq> 0 then [(''page'', Number_toString p)] else []
        | None \<Rightarrow> [])
     @ (case limit validatedParams of
          Some l \<Rightarrow> if l \<noteq> 0 then [(''limit'', Number_toString l)] else []
        | None \<Rightarrow> [])
     @ (case from' validatedParams of
          Some f \<Rightarrow> if f \<noteq> [] then [(''from'', f)] else []
        | None \<Rightarrow> [])
     @ (case to' validatedParams of
          Some t \<Rightarrow> if t \<noteq> [] then [(''to'', t)] else []
        | None \<Rightarrow> [])
     @ (case onlyParticipated validatedParams of
          Some b \<Rightarrow> [(''onlyParticipated'', if b then ''true'' else ''false'')]
        | None \<Rightarrow> [])
     @ (case meetingType validatedParams of
          Some m \<Rightarrow> if m \<noteq> [] then [(''meetingType'', m)] else []
        | None \<Rightarrow> [])"

text \<open>
  \<open>getMeetings\<close>: \<open>Inl\<close> is the ZodError thrown by \<open>parse\<close>, which rejects the promise the
  operation returned; nothing has happened by then. An \<open>undefined\<close> argument takes the
  default \<open>{}\<close>.
\<close>

definition getMeetings ::
  "axios_fn \<Rightarrow> TldvApi \<Rightarrow> (string \<Rightarrow> bool) \<Rightarrow> jsval
     \<Rightarrow> (zod_issue list + jsval) \<times> event list" where
  "getMeetings axios this isDatetime params =
     (case GetMeetingsParamsSchema_parse isDatetime
             (if params = JUndefined then JObj [] else params) of
        Inl issues \<Rightarrow> (Inl issues, [])
      | Inr validatedParams \<Rightarrow>
          apfst Inr
            (request axios this
               (''/meetings?'' @ URLSearchParams_toString (getMeetings_queryParams validatedParams))
               0 MAX_RETRIES))"

section \<open>The tool adapter\<close>

text \<open>
  \<open>JSON.stringify\<close>: \<open>undefined\<close> has no text (\<open>None\<close>), is \<open>null\<close> as an array element
  and is left out as a property value.
\<close>

definition hex_lower :: "nat \<Rightarrow> char" where
  "hex_lower d = ''0123456789abcdef'' ! d"

definition json_escape :: "char \<Rightarrow> string" where
  "json_escape c =
     (if c = CHR 0x22 then [CHR 0x5C, CHR 0x22]
      else if c = CHR 0x5C then [CHR 0x5C, CHR 0x5C]
      else if c = CHR 0x08 then [CHR 0x5C, CHR ''b'']
      else if c = CHR 0x0C then [CHR 0x5C, CHR ''f'']
      else if c = CHR 0x0A then [CHR 0x5C, CHR ''n'']
      else if c = CHR 0x0D then [CHR 0x5C, CHR ''r'']
      else if c = CHR 0x09 then [CHR 0x5C, CHR ''t'']
      else if (of_char c :: nat) < 32 then
        [CHR 0x5C, CHR ''u'', CHR ''0'', CHR ''0'',
         hex_lower (of_char c div 16), hex_lower (of_char c mod 16)]
      else [c])"

definition json_quote :: "string \<Rightarrow> string" where
  "json_quote s = [CHR 0x22] @ concat (map json_escape s) @ [CHR 0x22]"

fun JSON_stringify :: "jsval \<Rightarrow> string option" where
  "JSON_stringify JUndefined = None"
| "JSON_stringify JNull = Some ''null''"
| "JSON_stringify (JBool b) = Some (if b then ''true'' else ''false'')"
| "JSON_stringify (JNum n) = Some (Number_toString n)"
| "JSON_stringify (JStr s) = Some (json_quote s)"
| "JSON_stringify (JArr xs) =
     Some (''['' @ join '',''
             (map (\<lambda>x. case JSON_stringify x of None \<Rightarrow> ''null'' | Some t \<Rightarrow> t) xs) @ '']'')"
| "JSON_stringify (JObj kvs) =
     Some (''{'' @ join '',''
             (concat (map (\<lambda>kv. case JSON_stringify (snd kv) of
                                    None \<Rightarrow> []
                                  | Some t \<Rightarrow> [json_quote (fst kv) @ '':'' @ t]) kvs)) @ ''}'')"

text \<open>
  A tool result: the list of its content items, each \<open>{ type: "text", text: t }\<close>. A
  handler passes on what its client operation throws.
\<close>

datatype content_item = TextContent "string option"

record CallToolResult =
  content :: "content_item list"

definition get_meeting_metadata ::
  "axios_fn \<Rightarrow> TldvApi \<Rightarrow> string \<Rightarrow> CallToolResult \<times> event list" where
  "get_meeting_metadata axios tldvApi ident =
     (case getMeeting axios tldvApi ident of
        (meeting, events) \<Rightarrow> (\<lparr>content = [TextContent (JSON_stringify meeting)]\<rparr>, events))"

definition get_transcript ::
  "axios_fn \<Rightarrow> TldvApi \<Rightarrow> string \<Rightarrow> CallToolResult \<times> event list" where
  "get_transcript axios tldvApi meetingId =
     (case getTranscript axios tldvApi meetingId of
        (transcript, events) \<Rightarrow> (\<lparr>content = [TextContent (JSON_stringify transcript)]\<rparr>, events))"

definition list_meetings ::
  "axios_fn \<Rightarrow> TldvApi \<Rightarrow> (string \<Rightarrow> bool) \<Rightarrow> jsval
     \<Rightarrow> (zod_issue list + CallToolResult) \<times> event list" where
  "list_meetings axios tldvApi isDatetime input =
     (case getMeetings axios tldvApi isDatetime input of
        (Inl issues, events) \<Rightarrow> (Inl issues, events)
      | (Inr meetings, events) \<Rightarrow>
          (Inr \<lparr>content = [TextContent (JSON_stringify meetings)]\<rparr>, events))"

definition get_highlights ::
  "axios_fn \<Rightarrow> TldvApi \<Rightarrow> string \<Rightarrow> CallToolResult \<times> event list" where
  "get_highlights axios tldvApi meetingId =
     (case getHighlights axios tldvApi meetingId of
        (highlights, events) \<Rightarrow> (\<lparr>content = [TextContent (JSON_stringify highlights)]\<rparr>, events))"

text \<open>
  The catalogue: a call of one of the four registered tools with its arguments, the
  handler registered under that name, and the client operation the tool stands for.
\<close>

datatype tool_call =
    Get_meeting_metadata string
  | Get_transcript string
  | List_meetings jsval
  | Get_highlights string

fun call_tool ::
  "axios_fn \<Rightarrow> TldvApi \<Rightarrow> (string \<Rightarrow> bool) \<Rightarrow> tool_call
     \<Rightarrow> (zod_issue list + CallToolResult) \<times> event list" where
  "call_tool axios tldvApi isDatetime (Get_meeting_metadata ident) =
     apfst Inr (get_meeting_metadata axios tldvApi ident)"
| "call_tool axios tldvApi isDatetime (Get_transcript meetingId) =
     apfst Inr (get_transcript axios tldvApi meetingId)"
| "call_tool axios tldvApi isDatetime (List_meetings input) =
     list_meetings axios tldvApi isDatetime input"
| "call_tool axios tldvApi isDatetime (Get_highlights meetingId) =
     apfst Inr (get_highlights axios tldvApi meetingId)"

fun client_operation ::
  "axios_fn \<Rightarrow> TldvApi \<Rightarrow> (string \<Rightarrow> bool) \<Rightarrow> tool_call
     \<Rightarrow> (zod_issue list + jsval) \<times> event list" where
  "client_operation axios tldvApi isDatetime (Get_meeting_metadata ident) =
     apfst Inr (getMeeting axios tldvApi ident)"
| "client_operation axios tldvApi isDatetime (Get_transcript meetingId) =
     apfst Inr (getTranscript axios tldvApi meetingId)"
| "client_operation axios tldvApi isDatetime (List_meetings input) =
     getMeetings axios tldvApi isDatetime input"
| "client_operation axios tldvApi isDatetime (Get_highlights meetingId) =
     apfst Inr (getHighlights axios tldvApi meetingId)"

section \<open>Vocabulary of the properties\<close>

text \<open>
  A call of one of the five operations of the client, what the call does, and the
  endpoint it addresses (the five endpoints of the service: \<open>/meetings/{id}\<close>,
  \<open>/meetings?...\<close> with the query string of the validated parameters,
  \<open>/meetings/{id}/transcript\<close>, \<open>/meetings/{id}/highlights\<close>, \<open>/health\<close>). A call of
  \<open>getMeetings\<close> whose parameters fail validation addresses no endpoint.
\<close>

datatype client_call =
    GetMeeting string
  | GetMeetings jsval
  | GetTranscript string
  | GetHighlights string
  | HealthCheck

fun perform ::
  "axios_fn \<Rightarrow> TldvApi \<Rightarrow> (string \<Rightarrow> bool) \<Rightarrow> client_call
     \<Rightarrow> (zod_issue list + jsval) \<times> event list" where
  "perform axios this isDatetime (GetMeeting meetingId) =
     apfst Inr (getMeeting axios this meetingId)"
| "perform axios this isDatetime (GetMeetings params) =
     getMeetings axios this isDatetime params"
| "perform axios this isDatetime (GetTranscript meetingId) =
     apfst Inr (getTranscript axios this meetingId)"
| "perform axios this isDatetime (GetHighlights meetingId) =
     apfst Inr (getHighlights axios this meetingId)"
| "perform axios this isDatetime HealthCheck =
     apfst Inr (healthCheck axios this)"

fun call_endpoint :: "(string \<Rightarrow> bool) \<Rightarrow> client_call \<Rightarrow> zod_issue list + string" where
  "call_endpoint isDatetime (GetMeeting meetingId) = Inr (''/meetings/'' @ meetingId)"
| "call_endpoint isDatetime (GetMeetings params) =
     map_sum id
       (\<lambda>validatedParams.
          ''/meetings?'' @ URLSearchParams_toString (getMeetings_queryParams validatedParams))
       (GetMeetingsParamsSchema_parse isDatetime
          (if params = JUndefined then JObj [] else params))"
| "call_endpoint isDatetime (GetTranscript meetingId) =
     Inr (''/meetings/'' @ meetingId @ ''/transcript'')"
| "call_endpoint isDatetime (GetHighlights meetingId) =
     Inr (''/meetings/'' @ meetingId @ ''/highlights'')"
| "call_endpoint isDatetime HealthCheck = Inr ''/health''"

text \<open>
  The history of a call up to its attempt number \<open>k\<close> (counted from 0): each of the
  attempts before it has failed and has been retried; and what those attempts did to the
  outside, an HTTP call and the wait after it each.
\<close>

primrec all_retried :: "axios_fn \<Rightarrow> TldvApi \<Rightarrow> string \<Rightarrow> nat \<Rightarrow> bool" where
  "all_retried axios this endpoint 0 = True"
| "all_retried axios this endpoint (Suc k) =
     (all_retried axios this endpoint k \<and>
      (case try_block (axios (baseUrl this @ endpoint) (headers this) k) of
         Inl error \<Rightarrow> shouldRetry k MAX_RETRIES error
       | Inr envelope \<Rightarrow> False))"

primrec retry_events :: "TldvApi \<Rightarrow> string \<Rightarrow> nat \<Rightarrow> event list" where
  "retry_events this endpoint 0 = []"
| "retry_events this endpoint (Suc k) =
     retry_events this endpoint k
       @ [AxiosCall (baseUrl this @ endpoint) (headers this), SetTimeout (retry_delay k)]"



text \<open>A structured object that has a \<open>data\<close> field.\<close>

definition object_with_data :: "jsval \<Rightarrow> bool" where
  "object_with_data v = (case v of JObj kvs \<Rightarrow> map_of kvs ''data'' \<noteq> None | _ \<Rightarrow> False)"

section \<open>Example inputs\<close>

definition example_api :: TldvApi where
  "example_api =
     \<lparr>apiKey = ''secret'', baseUrl = BASE_URL,
      headers = [(''x-api-key'', ''secret''), (''Content-Type'', ''application/json'')]\<rparr>"

text \<open>A server that settles every call the same way, and one that follows a script.\<close>

definition axios_always :: "axios_outcome \<Rightarrow> axios_fn" where
  "axios_always outcome url hs n = outcome"

definition axios_script :: "axios_outcome list \<Rightarrow> axios_outcome \<Rightarrow> axios_fn" where
  "axios_script outcomes final url hs n = (if n < length outcomes then outcomes ! n else final)"

definition http_failure :: "nat \<Rightarrow> jsval \<Rightarrow> axios_outcome" where
  "http_failure code body =
     Rejected (AxiosError (''Request failed with status code '' @ Number_toString (int code))
                 (Some \<lparr>status = code, data = body\<rparr>))"

definition example_isDatetime :: "string \<Rightarrow> bool" where
  "example_isDatetime s = (s = ''2024-01-01T00:00:00Z'')"

section \<open>Evaluation lemmas\<close>

lemmas zod_defs =
  z_string_optional_def z_number_int_positive_optional_def z_string_datetime_optional_def
  z_boolean_optional_def z_enum_optional_def z_default_def own_property_def

lemma text_404: "Number_toString 404 = ''404''"
  by code_simp

lemma text_503: "Number_toString 503 = ''503''"
  by code_simp

lemma text_429: "Number_toString 429 = ''429''"
  by code_simp


lemma parse_no_params:
  "GetMeetingsParamsSchema_parse isDatetime (JObj []) =
     Inr \<lparr>query = None, page = None, limit = Some 50, from' = None, to' = None,
          onlyParticipated = None, meetingType = None\<rparr>"
  by (simp add: GetMeetingsParamsSchema_parse_def zod_defs)

lemma parse_page_limit:
  "GetMeetingsParamsSchema_parse isDatetime (JObj [(''page'', JNum 2), (''limit'', JNum 10)]) =
     Inr \<lparr>query = None, page = Some 2, limit = Some 10, from' = None, to' = None,
          onlyParticipated = None, meetingType = None\<rparr>"
  by (simp add: GetMeetingsParamsSchema_parse_def zod_defs)

lemma parse_empty_query:
  "GetMeetingsParamsSchema_parse isDatetime (JObj [(''query'', JStr [])]) =
     Inr \<lparr>query = Some [], page = None, limit = Some 50, from' = None, to' = None,
          onlyParticipated = None, meetingType = None\<rparr>"
  by (simp add: GetMeetingsParamsSchema_parse_def zod_defs)

lemma parse_not_participated:
  "GetMeetingsParamsSchema_parse isDatetime (JObj [(''onlyParticipated'', JBool False)]) =
     Inr \<lparr>query = None, page = None, limit = Some 50, from' = None, to' = None,
          onlyParticipated = Some False, meetingType = None\<rparr>"
  by (simp add: GetMeetingsParamsSchema_parse_def zod_defs)

lemma parse_bad_page:
  "p \<le> 0 \<Longrightarrow>
   GetMeetingsParamsSchema_parse isDatetime (JObj [(''page'', JNum p)])
     = Inl [ZodIssue [''page''] ''too_small'']"
  by (simp add: GetMeetingsParamsSchema_parse_def zod_defs)

lemma parse_bad_from:
  "\<not> isDatetime s \<Longrightarrow>
   GetMeetingsParamsSchema_parse isDatetime (JObj [(''from'', JStr s)])
     = Inl [ZodIssue [''from''] ''invalid_string'']"
  by (simp add: GetMeetingsParamsSchema_parse_def zod_defs)

lemma query_no_params:
  "getMeetings_queryParams
     \<lparr>query = None, page = None, limit = Some 50, from' = None, to' = None,
      onlyParticipated = None, meetingType = None\<rparr> = [(''limit'', ''50'')]"
  by code_simp

lemma query_page_limit:
  "getMeetings_queryParams
     \<lparr>query = None, page = Some 2, limit = Some 10, from' = None, to' = None,
      onlyParticipated = None, meetingType = None\<rparr> = [(''page'', ''2''), (''limit'', ''10'')]"
  by code_simp

lemma query_empty_query:
  "getMeetings_queryParams
     \<lparr>query = Some [], page = None, limit = Some 50, from' = None, to' = None,
      onlyParticipated = None, meetingType = None\<rparr> = [(''limit'', ''50'')]"
  by code_simp

lemma query_not_participated:
  "getMeetings_queryParams
     \<lparr>query = None, page = None, limit = Some 50, from' = None, to' = None,
      onlyParticipated = Some False, meetingType = None\<rparr>
   = [(''limit'', ''50''), (''onlyParticipated'', ''false'')]"
  by code_simp

lemma string_limit_50: "URLSearchParams_toString [(''limit'', ''50'')] = ''limit=50''"
  by code_simp

lemma string_page_limit:
  "URLSearchParams_toString [(''page'', ''2''), (''limit'', ''10'')] = ''page=2&limit=10''"
  by code_simp

lemma string_not_participated:
  "URLSearchParams_toString [(''limit'', ''50''), (''onlyParticipated'', ''false'')]
     = ''limit=50&onlyParticipated=false''"
  by code_simp

section \<open>One attempt of \<open>request\<close>\<close>

lemma request_returns:
  "try_block (axios (baseUrl this @ endpoint) (headers this) n) = Inr envelope \<Longrightarrow>
   request axios this endpoint n m = (envelope, [AxiosCall (baseUrl this @ endpoint) (headers this)])"
  by (subst request.simps) simp

lemma request_retries:
  "try_block (axios (baseUrl this @ endpoint) (headers this) n) = Inl error \<Longrightarrow>
   shouldRetry n m error \<Longrightarrow>
   request axios this endpoint n m =
     apsnd (\<lambda>later. AxiosCall (baseUrl this @ endpoint) (headers this) # SetTimeout (retry_delay n) # later)
       (request axios this endpoint (n + 1) m)"
  by (subst request.simps) simp


lemma has_property_data: "has_property ''data'' v = object_with_data v"
  by (cases v) (auto simp: object_with_data_def map_of_eq_None_iff)

lemma object_truthy: "object_with_data v \<Longrightarrow> truthy v \<and> typeof v = ''object''"
  by (cases v) (auto simp: object_with_data_def)

lemma try_block_success:
  "status r \<le> 200 \<Longrightarrow>
   try_block (Resolved r) =
     Inr (if object_with_data (data r) then data r
          else JObj [(''data'', data r), (''error'', JUndefined)])"
  using object_truthy [of "data r"]
  by (auto simp: try_block_def Let_def has_property_data)





lemma retry_delay_values: "retry_delay n = (if n = 0 then 1000 else 2000)"
proof (cases n)
  case 0
  then show ?thesis by (simp add: retry_delay_def RETRY_DELAY_def MAX_RETRY_DELAY_def)
next
  case (Suc k)
  have "(1::nat) \<le> 2 ^ k" by simp
  then have "(2000::nat) \<le> 1000 * 2 ^ Suc k" by simp
  then have "min ((1000::nat) * 2 ^ Suc k) 2000 = 2000" by (rule min_absorb2)
  then show ?thesis using Suc
    by (simp add: retry_delay_def RETRY_DELAY_def MAX_RETRY_DELAY_def del: power_Suc)
qed

lemma parse_fails_throws:
  "GetMeetingsParamsSchema_parse isDatetime (if params = JUndefined then JObj [] else params)
     = Inl issues \<Longrightarrow>
   getMeetings axios this isDatetime params = (Inl issues, [])"
  by (simp add: getMeetings_def)

section \<open>The attempts of an operation\<close>

lemma request_after_retries:
  "all_retried axios this endpoint k \<Longrightarrow>
   request axios this endpoint 0 MAX_RETRIES =
     (fst (request axios this endpoint k MAX_RETRIES),
      retry_events this endpoint k @ snd (request axios this endpoint k MAX_RETRIES))"
proof (induction k)
  case 0
  show ?case by simp
next
  case (Suc k)
  from Suc.prems have before: "all_retried axios this endpoint k" by simp
  from Suc.prems obtain error where
    failed: "try_block (axios (baseUrl this @ endpoint) (headers this) k) = Inl error"
    and retry: "shouldRetry k MAX_RETRIES error"
    by (auto split: sum.splits)
  from failed retry have step: "request axios this endpoint k MAX_RETRIES =
      apsnd (\<lambda>later. AxiosCall (baseUrl this @ endpoint) (headers this) # SetTimeout (retry_delay k) # later)
        (request axios this endpoint (k + 1) MAX_RETRIES)"
    by (rule request_retries [where axios = axios and error = error])
  show ?case
    unfolding Suc.IH [OF before] step by simp
qed

lemma perform_is_request:
  "call_endpoint isDatetime c = Inr endpoint \<Longrightarrow>
   perform axios this isDatetime c = apfst Inr (request axios this endpoint 0 MAX_RETRIES)"
  by (cases c)
     (auto simp: getMeeting_def getMeetings_def getTranscript_def getHighlights_def
        healthCheck_def split: sum.splits)

lemma perform_after_retries:
  assumes "call_endpoint isDatetime c = Inr endpoint"
    and "all_retried axios this endpoint k"
  shows "perform axios this isDatetime c =
     (Inr (fst (request axios this endpoint k MAX_RETRIES)),
      retry_events this endpoint k @ snd (request axios this endpoint k MAX_RETRIES))"
  unfolding perform_is_request [OF assms(1)] request_after_retries [OF assms(2)] by simp



lemma perform_last_attempt:
  assumes "call_endpoint isDatetime c = Inr endpoint"
    and "all_retried axios this endpoint k"
    and "request axios this endpoint k MAX_RETRIES = (envelope, [AxiosCall (baseUrl this @ endpoint) (headers this)])"
  shows "perform axios this isDatetime c =
     (Inr envelope, retry_events this endpoint k @ [AxiosCall (baseUrl this @ endpoint) (headers this)])"
  unfolding perform_after_retries [OF assms(1,2)] assms(3) by simp

lemmas example_defs =
  axios_always_def axios_script_def http_failure_def example_api_def try_block_def
  shouldRetry_def MAX_RETRIES_def retry_delay_def RETRY_DELAY_def MAX_RETRY_DELAY_def
  numeral_2_eq_2 text_404 text_429 text_503

section \<open>Validation errors\<close>

text \<open>
  C1, as amended. \<open>getMeetings\<close> is the one operation that validates its parameters, and
  parameters its schema rejects make it throw the validation error to its caller: no
  envelope is returned, no HTTP request has been issued, and nothing is retried or
  waited for. A page that is not positive and a \<open>from\<close> that is no date-time are
  rejected in this way.
\<close>

theorem getMeetings_throws_validation_error:
  "(GetMeetingsParamsSchema_parse isDatetime (if params = JUndefined then JObj [] else params)
      = Inl issues \<longrightarrow>
    getMeetings axios this isDatetime params = (Inl issues, []))
   \<and> (p \<le> 0 \<longrightarrow>
        getMeetings axios this isDatetime (JObj [(''page'', JNum p)])
          = (Inl [ZodIssue [''page''] ''too_small''], []))
   \<and> (\<not> isDatetime s \<longrightarrow>
        getMeetings axios this isDatetime (JObj [(''from'', JStr s)])
          = (Inl [ZodIssue [''from''] ''invalid_string''], []))"
  by (simp add: parse_fails_throws parse_bad_page parse_bad_from)

text \<open>
  The amended C1 at a bad date and at page 0, against a server that would answer every
  call with status 200.
\<close>

theorem getMeetings_throws_validation_error_witness:
  "getMeetings (axios_always (Resolved \<lparr>status = 200, data = JNull\<rparr>)) example_api
     example_isDatetime (JObj [(''from'', JStr ''yesterday'')])
   = (Inl [ZodIssue [''from''] ''invalid_string''], [])
   \<and> getMeetings (axios_always (Resolved \<lparr>status = 200, data = JNull\<rparr>)) example_api
       example_isDatetime (JObj [(''page'', JNum 0)])
     = (Inl [ZodIssue [''page''] ''too_small''], [])"
  using getMeetings_throws_validation_error
    [where isDatetime = example_isDatetime and s = "''yesterday''" and p = 0
      and params = "JObj [(''page'', JNum 0)]" and issues = "[ZodIssue [''page''] ''too_small'']"
      and this = example_api
      and axios = "axios_always (Resolved \<lparr>status = 200, data = JNull\<rparr>)"]
  by (simp add: example_isDatetime_def parse_bad_page)

text \<open>
  C1 as stated fails: \<open>getMeetings({page: -1})\<close> does not return an error envelope, it
  throws.
\<close>

theorem getMeetings_negative_page_returns_no_envelope:
  "getMeetings (axios_always (Resolved \<lparr>status = 200, data = JNull\<rparr>)) example_api
     example_isDatetime (JObj [(''page'', JNum (- 1))])
   = (Inl [ZodIssue [''page''] ''too_small''], [])"
  by (simp add: parse_fails_throws parse_bad_page)

section \<open>Failed responses\<close>




section \<open>Retries\<close>




text \<open>
  C5. A retry at attempt count \<open>n\<close> waits \<open>min(1000 * 2^n, 2000)\<close> milliseconds, which
  is 1000 for \<open>n = 0\<close> and 2000 for every \<open>n \<ge> 1\<close>, and then runs the request again with
  attempt count \<open>n + 1\<close>.
\<close>

theorem retry_waits_capped_backoff:
  assumes "try_block (axios (baseUrl this @ endpoint) (headers this) n) = Inl error"
    and "shouldRetry n m error"
  shows "request axios this endpoint n m =
           (fst (request axios this endpoint (n + 1) m),
            AxiosCall (baseUrl this @ endpoint) (headers this)
              # SetTimeout (min (1000 * 2 ^ n) 2000)
              # snd (request axios this endpoint (n + 1) m))
         \<and> min (1000 * 2 ^ n) 2000 = (if n = 0 then 1000 else (2000::nat))"
proof -
  have d: "retry_delay n = min (1000 * 2 ^ n) 2000"
    by (simp add: retry_delay_def RETRY_DELAY_def MAX_RETRY_DELAY_def)
  from request_retries [where axios = axios and this = this and endpoint = endpoint
      and n = n and m = m and error = error] assms show ?thesis
    using retry_delay_values [of n] unfolding d
    by (simp add: apsnd_def map_prod_def split: prod.splits)
qed

text \<open>
  C5 at the second attempt of a call whose first two attempts meet a 503: the wait is
  2000 ms and the third attempt follows.
\<close>

theorem retry_waits_capped_backoff_witness:
  "request (axios_script [http_failure 503 JNull, http_failure 503 JNull]
              (Resolved \<lparr>status = 200, data = JObj [(''status'', JStr ''ok'')]\<rparr>))
     example_api ''/health'' 1 MAX_RETRIES
   = (fst (request (axios_script [http_failure 503 JNull, http_failure 503 JNull]
              (Resolved \<lparr>status = 200, data = JObj [(''status'', JStr ''ok'')]\<rparr>))
             example_api ''/health'' 2 MAX_RETRIES),
      AxiosCall (BASE_URL @ ''/health'') [(''x-api-key'', ''secret''), (''Content-Type'', ''application/json'')]
      # SetTimeout 2000
      # snd (request (axios_script [http_failure 503 JNull, http_failure 503 JNull]
              (Resolved \<lparr>status = 200, data = JObj [(''status'', JStr ''ok'')]\<rparr>))
             example_api ''/health'' 2 MAX_RETRIES))"
  using retry_waits_capped_backoff
    [where axios = "axios_script [http_failure 503 JNull, http_failure 503 JNull]
              (Resolved \<lparr>status = 200, data = JObj [(''status'', JStr ''ok'')]\<rparr>)"
      and this = example_api and endpoint = "''/health''" and n = 1 and m = MAX_RETRIES
      and error = "AxiosError ''Request failed with status code 503''
                     (Some \<lparr>status = 503, data = JNull\<rparr>)"]
  by (simp add: axios_script_def http_failure_def example_api_def try_block_def text_503
        shouldRetry_def MAX_RETRIES_def numeral_2_eq_2)

section \<open>Successful responses\<close>

text \<open>
  C4. For every call of one of the five client operations and every response with status
  at most 200 that the call receives, at the first attempt or after retried ones: a body
  that is a structured object with a \<open>data\<close> field is returned unchanged as the
  envelope, any other body \<open>Y\<close> is returned as \<open>{data: Y}\<close> with no error; nothing more is
  requested.
\<close>

theorem success_body_passed_or_wrapped:
  assumes "call_endpoint isDatetime c = Inr endpoint"
    and "all_retried axios this endpoint k"
    and "axios (baseUrl this @ endpoint) (headers this) k = Resolved r"
    and "status r \<le> 200"
  shows "perform axios this isDatetime c =
           (Inr (if object_with_data (data r) then data r
                 else JObj [(''data'', data r), (''error'', JUndefined)]),
            retry_events this endpoint k @ [AxiosCall (baseUrl this @ endpoint) (headers this)])"
proof -
  from assms(3,4) have "request axios this endpoint k MAX_RETRIES =
      (if object_with_data (data r) then data r
       else JObj [(''data'', data r), (''error'', JUndefined)], [AxiosCall (baseUrl this @ endpoint) (headers this)])"
    by (simp add: request_returns try_block_success)
  with assms(1,2) show ?thesis by (rule perform_last_attempt)
qed

text \<open>
  C4 at a transcript body that has a \<open>data\<close> field, received after two attempts that met
  a 503, and at a bare health body.
\<close>

theorem success_body_passed_or_wrapped_witness:
  "perform (axios_script [http_failure 503 JNull, http_failure 503 JNull]
              (Resolved \<lparr>status = 200,
                         data = JObj [(''data'', JArr []), (''meetingId'', JStr ''m1'')]\<rparr>))
     example_api example_isDatetime (GetTranscript ''m1'')
   = (Inr (JObj [(''data'', JArr []), (''meetingId'', JStr ''m1'')]),
      [AxiosCall (BASE_URL @ ''/meetings/m1/transcript'') [(''x-api-key'', ''secret''), (''Content-Type'', ''application/json'')],
       SetTimeout 1000,
       AxiosCall (BASE_URL @ ''/meetings/m1/transcript'') [(''x-api-key'', ''secret''), (''Content-Type'', ''application/json'')],
       SetTimeout 2000,
       AxiosCall (BASE_URL @ ''/meetings/m1/transcript'') [(''x-api-key'', ''secret''), (''Content-Type'', ''application/json'')]])
   \<and> perform (axios_always (Resolved \<lparr>status = 200, data = JObj [(''status'', JStr ''ok'')]\<rparr>))
       example_api example_isDatetime HealthCheck
     = (Inr (JObj [(''data'', JObj [(''status'', JStr ''ok'')]), (''error'', JUndefined)]),
        [AxiosCall (BASE_URL @ ''/health'') [(''x-api-key'', ''secret''), (''Content-Type'', ''application/json'')]])"
  using success_body_passed_or_wrapped
    [where axios = "axios_script [http_failure 503 JNull, http_failure 503 JNull]
              (Resolved \<lparr>status = 200,
                         data = JObj [(''data'', JArr []), (''meetingId'', JStr ''m1'')]\<rparr>)"
      and this = example_api and isDatetime = example_isDatetime and c = "GetTranscript ''m1''"
      and endpoint = "''/meetings/m1/transcript''" and k = 2
      and r = "\<lparr>status = 200, data = JObj [(''data'', JArr []), (''meetingId'', JStr ''m1'')]\<rparr>"]
    success_body_passed_or_wrapped
    [where axios = "axios_always (Resolved \<lparr>status = 200,
                                            data = JObj [(''status'', JStr ''ok'')]\<rparr>)"
      and this = example_api and isDatetime = example_isDatetime and c = HealthCheck
      and endpoint = "''/health''" and k = 0
      and r = "\<lparr>status = 200, data = JObj [(''status'', JStr ''ok'')]\<rparr>"]
  by (simp add: example_defs object_with_data_def)

text \<open>
  C9. For every call of one of the five client operations, a response with status at most
  200 whose body is \<open>null\<close> or not an object yields the envelope
  \<open>{data: body, error: undefined}\<close>; a \<open>null\<close> body therefore gives a success envelope
  with \<open>data\<close> \<open>null\<close> and no error.
\<close>

theorem non_object_body_wrapped:
  assumes "call_endpoint isDatetime c = Inr endpoint"
    and "all_retried axios this endpoint k"
    and "axios (baseUrl this @ endpoint) (headers this) k = Resolved r"
    and "status r \<le> 200"
    and "data r = JNull \<or> typeof (data r) \<noteq> ''object''"
  shows "perform axios this isDatetime c =
           (Inr (JObj [(''data'', data r), (''error'', JUndefined)]),
            retry_events this endpoint k @ [AxiosCall (baseUrl this @ endpoint) (headers this)])"
proof -
  from assms(5) have "\<not> object_with_data (data r)"
    by (cases "data r") (auto simp: object_with_data_def)
  with assms(3,4) have "request axios this endpoint k MAX_RETRIES =
      (JObj [(''data'', data r), (''error'', JUndefined)], [AxiosCall (baseUrl this @ endpoint) (headers this)])"
    by (simp add: request_returns try_block_success)
  with assms(1,2) show ?thesis by (rule perform_last_attempt)
qed

text \<open>
  C9 at a 200 response with a \<open>null\<close> body and at a bare string received after a 429.
\<close>

theorem non_object_body_wrapped_witness:
  "perform (axios_always (Resolved \<lparr>status = 200, data = JNull\<rparr>))
     example_api example_isDatetime (GetHighlights ''m1'')
   = (Inr (JObj [(''data'', JNull), (''error'', JUndefined)]),
      [AxiosCall (BASE_URL @ ''/meetings/m1/highlights'') [(''x-api-key'', ''secret''), (''Content-Type'', ''application/json'')]])
   \<and> perform (axios_script [http_failure 429 JNull] (Resolved \<lparr>status = 200, data = JStr ''ok''\<rparr>))
       example_api example_isDatetime (GetMeetings (JObj []))
     = (Inr (JObj [(''data'', JStr ''ok''), (''error'', JUndefined)]),
        [AxiosCall (BASE_URL @ ''/meetings?limit=50'') [(''x-api-key'', ''secret''), (''Content-Type'', ''application/json'')],
         SetTimeout 1000,
         AxiosCall (BASE_URL @ ''/meetings?limit=50'') [(''x-api-key'', ''secret''), (''Content-Type'', ''application/json'')]])"
  using non_object_body_wrapped
    [where axios = "axios_always (Resolved \<lparr>status = 200, data = JNull\<rparr>)"
      and this = example_api and isDatetime = example_isDatetime and c = "GetHighlights ''m1''"
      and endpoint = "''/meetings/m1/highlights''" and k = 0
      and r = "\<lparr>status = 200, data = JNull\<rparr>"]
    non_object_body_wrapped
    [where axios = "axios_script [http_failure 429 JNull]
                      (Resolved \<lparr>status = 200, data = JStr ''ok''\<rparr>)"
      and this = example_api and isDatetime = example_isDatetime and c = "GetMeetings (JObj [])"
      and endpoint = "''/meetings?limit=50''" and k = 1
      and r = "\<lparr>status = 200, data = JStr ''ok''\<rparr>"]
  by (simp add: example_defs parse_no_params query_no_params string_limit_50)

section \<open>Construction\<close>

text \<open>
  C6. Constructing the client from a configuration whose credential is absent or the
  empty string fails (the constructor throws, and it has no access to the HTTP library);
  from a configuration with a non-empty credential it succeeds.
\<close>

theorem constructor_requires_credential:
  "(own_property kvs ''apiKey'' = JUndefined \<or> own_property kvs ''apiKey'' = JStr [] \<longrightarrow>
      (\<exists>issues. TldvApi_constructor (JObj kvs) = Inl issues))
   \<and> (own_property kvs ''apiKey'' = JStr k \<and> k \<noteq> [] \<longrightarrow>
        TldvApi_constructor (JObj kvs) =
          Inr \<lparr>apiKey = k, baseUrl = BASE_URL,
               headers = [(''x-api-key'', k), (''Content-Type'', ''application/json'')]\<rparr>)"
  by (auto simp: TldvApi_constructor_def TldvConfigSchema_parse_def Suc_le_eq)

text \<open>C6 at an unset credential, at the empty one and at \<open>secret\<close>.\<close>

theorem constructor_requires_credential_witness:
  "(\<exists>issues. TldvApi_constructor (JObj [(''apiKey'', JUndefined)]) = Inl issues)
   \<and> (\<exists>issues. TldvApi_constructor (JObj [(''apiKey'', JStr [])]) = Inl issues)
   \<and> TldvApi_constructor (JObj [(''apiKey'', JStr ''secret'')]) = Inr example_api"
  using constructor_requires_credential [of "[(''apiKey'', JUndefined)]"]
    constructor_requires_credential [of "[(''apiKey'', JStr [])]"]
    constructor_requires_credential [of "[(''apiKey'', JStr ''secret'')]" "''secret''"]
  by (simp add: own_property_def example_api_def)

section \<open>The query string\<close>

text \<open>
  C7. \<open>getMeetings({})\<close> sends the query string \<open>limit=50\<close>, the defaulted limit and no
  other parameter; \<open>getMeetings({page: 2, limit: 10})\<close> sends exactly \<open>page=2&limit=10\<close>.
\<close>

theorem getMeetings_query_string:
  "getMeetings axios this isDatetime (JObj []) =
     apfst Inr (request axios this ''/meetings?limit=50'' 0 MAX_RETRIES)
   \<and> getMeetings axios this isDatetime (JObj [(''page'', JNum 2), (''limit'', JNum 10)]) =
       apfst Inr (request axios this ''/meetings?page=2&limit=10'' 0 MAX_RETRIES)
   \<and> map_sum id getMeetings_queryParams (GetMeetingsParamsSchema_parse isDatetime (JObj []))
       = Inr [(''limit'', ''50'')]
   \<and> map_sum id getMeetings_queryParams
         (GetMeetingsParamsSchema_parse isDatetime (JObj [(''page'', JNum 2), (''limit'', JNum 10)]))
       = Inr [(''page'', ''2''), (''limit'', ''10'')]"
  by (simp add: getMeetings_def parse_no_params parse_page_limit query_no_params
        query_page_limit string_limit_50 string_page_limit)

text \<open>
  C10. An optional parameter whose validated value is falsy is not appended to the
  query, the empty \<open>query\<close> string that validation accepts among them, whereas
  \<open>onlyParticipated: false\<close> is appended as \<open>onlyParticipated=false\<close>.
\<close>

theorem falsy_parameters_omitted:
  "(query vp = Some [] \<longrightarrow> ''query'' \<notin> fst ` set (getMeetings_queryParams vp))
   \<and> (page vp = Some 0 \<longrightarrow> ''page'' \<notin> fst ` set (getMeetings_queryParams vp))
   \<and> (limit vp = Some 0 \<longrightarrow> ''limit'' \<notin> fst ` set (getMeetings_queryParams vp))
   \<and> (from' vp = Some [] \<longrightarrow> ''from'' \<notin> fst ` set (getMeetings_queryParams vp))
   \<and> (to' vp = Some [] \<longrightarrow> ''to'' \<notin> fst ` set (getMeetings_queryParams vp))
   \<and> (meetingType vp = Some [] \<longrightarrow> ''meetingType'' \<notin> fst ` set (getMeetings_queryParams vp))
   \<and> (onlyParticipated vp = Some False \<longrightarrow>
        (''onlyParticipated'', ''false'') \<in> set (getMeetings_queryParams vp))
   \<and> getMeetings axios this isDatetime (JObj [(''query'', JStr [])]) =
       apfst Inr (request axios this ''/meetings?limit=50'' 0 MAX_RETRIES)
   \<and> getMeetings axios this isDatetime (JObj [(''onlyParticipated'', JBool False)]) =
       apfst Inr (request axios this ''/meetings?limit=50&onlyParticipated=false'' 0 MAX_RETRIES)"
proof -
  have "getMeetings axios this isDatetime (JObj [(''query'', JStr [])]) =
       apfst Inr (request axios this ''/meetings?limit=50'' 0 MAX_RETRIES)"
    by (simp add: getMeetings_def parse_empty_query query_empty_query string_limit_50)
  moreover have "getMeetings axios this isDatetime (JObj [(''onlyParticipated'', JBool False)]) =
       apfst Inr (request axios this ''/meetings?limit=50&onlyParticipated=false'' 0 MAX_RETRIES)"
    by (simp add: getMeetings_def parse_not_participated query_not_participated
          string_not_participated)
  moreover have "query vp = Some [] \<longrightarrow> ''query'' \<notin> fst ` set (getMeetings_queryParams vp)"
    by (auto simp: getMeetings_queryParams_def split: option.splits if_splits)
  moreover have "page vp = Some 0 \<longrightarrow> ''page'' \<notin> fst ` set (getMeetings_queryParams vp)"
    by (auto simp: getMeetings_queryParams_def split: option.splits if_splits)
  moreover have "limit vp = Some 0 \<longrightarrow> ''limit'' \<notin> fst ` set (getMeetings_queryParams vp)"
    by (auto simp: getMeetings_queryParams_def split: option.splits if_splits)
  moreover have "from' vp = Some [] \<longrightarrow> ''from'' \<notin> fst ` set (getMeetings_queryParams vp)"
    by (auto simp: getMeetings_queryParams_def split: option.splits if_splits)
  moreover have "to' vp = Some [] \<longrightarrow> ''to'' \<notin> fst ` set (getMeetings_queryParams vp)"
    by (auto simp: getMeetings_queryParams_def split: option.splits if_splits)
  moreover have "meetingType vp = Some [] \<longrightarrow>
      ''meetingType'' \<notin> fst ` set (getMeetings_queryParams vp)"
    by (auto simp: getMeetings_queryParams_def split: option.splits if_splits)
  moreover have "onlyParticipated vp = Some False \<longrightarrow>
        (''onlyParticipated'', ''false'') \<in> set (getMeetings_queryParams vp)"
    by (simp add: getMeetings_queryParams_def)
  ultimately show ?thesis by blast
qed

text \<open>C10 at parameters whose every value is falsy.\<close>

theorem falsy_parameters_omitted_witness:
  "fst ` set (getMeetings_queryParams
      \<lparr>query = Some [], page = Some 0, limit = Some 0, from' = Some [], to' = Some [],
       onlyParticipated = Some False, meetingType = Some []\<rparr>)
     \<inter> {''query'', ''page'', ''limit'', ''from'', ''to'', ''meetingType''} = {}
   \<and> (''onlyParticipated'', ''false'') \<in> set (getMeetings_queryParams
      \<lparr>query = Some [], page = Some 0, limit = Some 0, from' = Some [], to' = Some [],
       onlyParticipated = Some False, meetingType = Some []\<rparr>)"
  using falsy_parameters_omitted
    [where vp = "\<lparr>query = Some [], page = Some 0, limit = Some 0, from' = Some [],
       to' = Some [], onlyParticipated = Some False, meetingType = Some []\<rparr>"]
  by simp

section \<open>The adapter\<close>

text \<open>
  C8. For every call of each of the four tools the handler's result is the single text
  item holding \<open>JSON.stringify\<close> of the envelope that the tool's client operation
  returned, whatever the envelope holds: the text depends on the envelope through
  \<open>JSON.stringify\<close> alone, and the handler does nothing else to the outside.
\<close>

theorem adapter_serializes_envelope:
  "call_tool axios tldvApi isDatetime call =
     apfst (map_sum id (\<lambda>envelope. \<lparr>content = [TextContent (JSON_stringify envelope)]\<rparr>))
       (client_operation axios tldvApi isDatetime call)"
proof (cases call)
  case (Get_meeting_metadata ident)
  then show ?thesis
    by (simp add: get_meeting_metadata_def split: prod.splits)
next
  case (Get_transcript meetingId)
  then show ?thesis
    by (simp add: get_transcript_def split: prod.splits)
next
  case (List_meetings input)
  then show ?thesis
    by (simp add: list_meetings_def split: prod.splits sum.splits)
next
  case (Get_highlights meetingId)
  then show ?thesis
    by (simp add: get_highlights_def split: prod.splits)
qed

end
